theory Spec2Isabelle
  imports Main "HOL-Library.Word"
begin

section \<open>Go values shared by the block and store packages\<close>

text \<open>
  A Go \<^verbatim>\<open>[]byte\<close> is either \<^verbatim>\<open>nil\<close> or a (possibly empty) sequence of bytes; the
  source tests \<^verbatim>\<open>b.cachedBytes == nil\<close>, so the two are kept apart: \<open>None\<close> is the nil
  slice. A Go \<^verbatim>\<open>panic\<close> is the \<open>Panic\<close> outcome; an \<^verbatim>\<open>error\<close> return value is the left
  summand of a sum (or an \<open>error option\<close> beside the value, where the source returns a
  pair and the value returned beside the error matters).
\<close>

type_synonym byte = "8 word"
type_synonym slice = "byte list option"
type_synonym error = string
type_synonym multihash = "byte list"

datatype 'a outcome = Panic error | Return 'a

definition bytes_of :: "slice \<Rightarrow> byte list" where
  "bytes_of s = (case s of None \<Rightarrow> [] | Some bs \<Rightarrow> bs)"

text \<open>
  \<^verbatim>\<open>cid.Cid\<close> of go-cid: \<^verbatim>\<open>cid.Undef\<close> is the zero value; \<^verbatim>\<open>NewCidV0\<close> and \<^verbatim>\<open>NewCidV1\<close>
  build the two versions from a multihash (and, for version 1, a codec). Comparison with
  \<^verbatim>\<open>==\<close> and \<^verbatim>\<open>Cid.Equals\<close> is equality of these values.
\<close>

datatype cid = Undef | NewCidV0 multihash | NewCidV1 "64 word" multihash

definition DagCBOR :: "64 word" where
  "DagCBOR = 0x71"

definition BLAKE2B_MIN :: "64 word" where
  "BLAKE2B_MIN = 0xb201"

definition mh_ID :: "64 word" where
  "mh_ID = 0x00"

text \<open>
  The functions the two packages call and that are not part of the sources at hand:
  \<^verbatim>\<open>encoding.Encode\<close> and \<^verbatim>\<open>encoding.Decode\<close> (package internal/pkg/encoding), \<^verbatim>\<open>mh.Sum\<close>
  of go-multihash, the constant \<^verbatim>\<open>types.DefaultHashFunction\<close>, the hash verification
  \<^verbatim>\<open>blocks.NewBlockWithCid\<close> performs in debug mode, and the generic CBOR parse of
  \<^verbatim>\<open>cbor.DecodeBlock\<close>. They are parameters of every definition below; nothing is assumed
  about them except where a theorem says so. The encoder works by reflection and sees the
  exported fields only, so \<open>Encode\<close> takes the exported part of a value and \<open>Decode\<close>
  returns it.
\<close>

record 'v env =
  Encode :: "'v \<Rightarrow> error + slice"
  Decode :: "byte list \<Rightarrow> error + 'v"
  mh_Sum :: "byte list \<Rightarrow> 64 word \<Rightarrow> int \<Rightarrow> error + multihash"
  DefaultHashFunction :: "64 word"
  debug_verify :: "slice \<Rightarrow> cid \<Rightarrow> error option"
  cbor_parse :: "byte list \<Rightarrow> error option"

text \<open>\<^verbatim>\<open>cid.Prefix\<close> and \<^verbatim>\<open>Prefix.Sum\<close> of go-cid.\<close>

record Prefix =
  Version :: "64 word"
  Codec :: "64 word"
  MhType :: "64 word"
  MhLength :: int

definition Prefix_Sum :: "'v env \<Rightarrow> Prefix \<Rightarrow> slice \<Rightarrow> error + cid" where
  "Prefix_Sum env p d =
     (let len = (if MhType p = mh_ID then - 1 else MhLength p) in
      case mh_Sum env (bytes_of d) (MhType p) len of
        Inl err \<Rightarrow> Inl err
      | Inr hash \<Rightarrow>
          if Version p = 0 then Inr (NewCidV0 hash)
          else if Version p = 1 then Inr (NewCidV1 (Codec p) hash)
          else Inl ''invalid cid version'')"

text \<open>\<^verbatim>\<open>blocks.BasicBlock\<close> of go-block-format and the IPLD node of go-ipld-cbor.\<close>

record BasicBlock =
  blk_data :: slice
  blk_cid :: cid

record Node =
  RawData :: slice
  node_cid :: cid

definition NewBlockWithCid :: "'v env \<Rightarrow> slice \<Rightarrow> cid \<Rightarrow> error + BasicBlock" where
  "NewBlockWithCid env d c =
     (case debug_verify env d c of
        Some err \<Rightarrow> Inl err
      | None \<Rightarrow> Inr \<lparr>blk_data = d, blk_cid = c\<rparr>)"

definition cbor_DecodeBlock :: "'v env \<Rightarrow> BasicBlock \<Rightarrow> error + Node" where
  "cbor_DecodeBlock env blk =
     (case cbor_parse env (bytes_of (blk_data blk)) of
        Some err \<Rightarrow> Inl err
      | None \<Rightarrow> Inr \<lparr>RawData = blk_data blk, node_cid = blk_cid blk\<rparr>)"

section \<open>Package block: the block header\<close>

text \<open>
  The struct \<^verbatim>\<open>Block\<close> of block.go. Its thirteen exported fields, in declaration order,
  are the record \<open>Header\<close>; the two unexported caches extend it to \<open>Block\<close>. The types
  \<^verbatim>\<open>Ticket\<close>, \<^verbatim>\<open>EPoStInfo\<close> and \<^verbatim>\<open>TipSetKey\<close> are declared outside the sources at hand
  and are type parameters. \<^verbatim>\<open>fbig.Int\<close> wraps a \<^verbatim>\<open>big.Int\<close>: an unbounded integer.
  \<^verbatim>\<open>types.Signature\<close> is a byte slice.
\<close>

record ('t, 'e, 'k) Header =
  Miner :: "byte list"
  Ticket :: 't
  EPoStInfo :: 'e
  Parents :: 'k
  ParentWeight :: int
  Height :: "64 word"
  StateRoot :: cid
  MessageReceipts :: cid
  Messages :: cid
  BLSAggregateSig :: slice
  Timestamp :: "64 word"
  BlockSig :: slice
  ForkSignaling :: "64 word"

record ('t, 'e, 'k) Block = "('t, 'e, 'k) Header" +
  cachedCid :: cid
  cachedBytes :: slice

text \<open>The exported fields of a block: what the encoder sees.\<close>

definition exported :: "('t, 'e, 'k) Block \<Rightarrow> ('t, 'e, 'k) Header" where
  "exported b = Header.truncate b"

text \<open>
  A block whose exported fields are \<open>h\<close> and whose caches hold the given values;
  \<open>with_caches h Undef None\<close> is what a struct literal \<^verbatim>\<open>&Block{...}\<close> naming only
  exported fields builds, and what \<^verbatim>\<open>var out Block\<close> is once a decoder has filled it.
\<close>

definition with_caches ::
  "('t, 'e, 'k) Header \<Rightarrow> cid \<Rightarrow> slice \<Rightarrow> ('t, 'e, 'k) Block" where
  "with_caches h c bs = Header.extend h (Block.fields c bs)"

text \<open>
  \<^verbatim>\<open>func (b *Block) Cid() cid.Cid\<close>. The receiver is a pointer and both caches are
  written, so the model returns the identifier together with the block as it is after
  the call.
\<close>

definition Cid ::
  "('t, 'e, 'k) Header env \<Rightarrow> ('t, 'e, 'k) Block \<Rightarrow> (cid \<times> ('t, 'e, 'k) Block) outcome" where
  "Cid env b =
     (if cachedCid b = Undef then
        (case (if cachedBytes b = None then
                 (case Encode env (exported b) of
                    Inl err \<Rightarrow> Panic err
                  | Inr bytes \<Rightarrow> Return (b\<lparr>cachedBytes := bytes\<rparr>))
               else Return b) of
           Panic err \<Rightarrow> Panic err
         | Return b1 \<Rightarrow>
             (case Prefix_Sum env
                     \<lparr>Version = 1, Codec = DagCBOR,
                      MhType = DefaultHashFunction env, MhLength = - 1\<rparr>
                     (cachedBytes b1) of
                Inl err \<Rightarrow> Panic err
              | Inr c \<Rightarrow> Return (c, b1\<lparr>cachedCid := c\<rparr>)))
      else Return (cachedCid b, b))"

text \<open>The identifier alone, for statements that do not follow the caches.\<close>

definition Cid_value :: "('t, 'e, 'k) Header env \<Rightarrow> ('t, 'e, 'k) Block \<Rightarrow> cid outcome" where
  "Cid_value env b = (case Cid env b of Panic err \<Rightarrow> Panic err | Return (c, b') \<Rightarrow> Return c)"

text \<open>\<^verbatim>\<open>func (b *Block) ToNode() node.Node\<close>.\<close>

definition ToNode :: "('t, 'e, 'k) Header env \<Rightarrow> ('t, 'e, 'k) Block \<Rightarrow> Node outcome" where
  "ToNode env b =
     (let mhType = BLAKE2B_MIN + 31; mhLen = - 1 in
      case Encode env (exported b) of
        Inl err \<Rightarrow> Panic err
      | Inr d \<Rightarrow>
          (case mh_Sum env (bytes_of d) mhType mhLen of
             Inl err \<Rightarrow> Panic err
           | Inr hash \<Rightarrow>
               (let c = NewCidV1 DagCBOR hash in
                case NewBlockWithCid env d c of
                  Inl err \<Rightarrow> Panic err
                | Inr blk \<Rightarrow>
                    (case cbor_DecodeBlock env blk of
                       Inl err \<Rightarrow> Panic err
                     | Inr node \<Rightarrow> Return node))))"

text \<open>\<^verbatim>\<open>func DecodeBlock(b []byte) (*Block, error)\<close>.\<close>

definition DecodeBlock ::
  "('t, 'e, 'k) Header env \<Rightarrow> slice \<Rightarrow> error + ('t, 'e, 'k) Block" where
  "DecodeBlock env b =
     (case Decode env (bytes_of b) of
        Inl err \<Rightarrow> Inl err
      | Inr out \<Rightarrow> Inr ((with_caches out Undef None)\<lparr>cachedBytes := b\<rparr>))"

text \<open>
  \<^verbatim>\<open>func (b *Block) Equals(other *Block) bool\<close>: \<^verbatim>\<open>b.Cid()\<close> is evaluated first, then
  \<^verbatim>\<open>other.Cid()\<close>; both blocks come back with their caches filled.
\<close>

definition Equals ::
  "('t, 'e, 'k) Header env \<Rightarrow> ('t, 'e, 'k) Block \<Rightarrow> ('t, 'e, 'k) Block \<Rightarrow>
     (bool \<times> ('t, 'e, 'k) Block \<times> ('t, 'e, 'k) Block) outcome" where
  "Equals env b other =
     (case Cid env b of
        Panic err \<Rightarrow> Panic err
      | Return (c, b') \<Rightarrow>
          (case Cid env other of
             Panic err \<Rightarrow> Panic err
           | Return (c', other') \<Rightarrow> Return (c = c', b', other')))"

text \<open>
  \<^verbatim>\<open>func (b *Block) SignatureData() []byte\<close>: the temporary block copies twelve exported
  fields; \<^verbatim>\<open>BlockSig\<close> and both caches keep their zero values.
\<close>

definition SignatureData ::
  "('t, 'e, 'k) Header env \<Rightarrow> ('t, 'e, 'k) Block \<Rightarrow> slice outcome" where
  "SignatureData env b =
     (let tmp = with_caches
          \<lparr>Miner = Miner b, Ticket = Ticket b, EPoStInfo = EPoStInfo b,
           Parents = Parents b, ParentWeight = ParentWeight b, Height = Height b,
           StateRoot = StateRoot b, MessageReceipts = MessageReceipts b,
           Messages = Messages b, BLSAggregateSig = BLSAggregateSig b,
           Timestamp = Timestamp b, BlockSig = None,
           ForkSignaling = ForkSignaling b\<rparr> Undef None in
      case ToNode env tmp of
        Panic err \<Rightarrow> Panic err
      | Return node \<Rightarrow> Return (RawData node))"

text \<open>
  The header with the block signature cleared: the exported fields of the temporary
  block of \<^verbatim>\<open>SignatureData\<close>.
\<close>

definition clear_BlockSig :: "('t, 'e, 'k) Header \<Rightarrow> ('t, 'e, 'k) Header" where
  "clear_BlockSig h = h\<lparr>BlockSig := None\<rparr>"

text \<open>
  The identifier \<^verbatim>\<open>Cid\<close> computes for given bytes, and the one it computes from the
  exported fields alone when both caches are empty.
\<close>

definition wire_cid :: "'v env \<Rightarrow> slice \<Rightarrow> cid outcome" where
  "wire_cid env d =
     (case mh_Sum env (bytes_of d) (DefaultHashFunction env) (- 1) of
        Inl err \<Rightarrow> Panic err
      | Inr hash \<Rightarrow> Return (NewCidV1 DagCBOR hash))"

definition canonical_cid :: "'v env \<Rightarrow> 'v \<Rightarrow> cid outcome" where
  "canonical_cid env h =
     (case Encode env h of
        Inl err \<Rightarrow> Panic err
      | Inr d \<Rightarrow> wire_cid env d)"

text \<open>
  The caches of a block agree with its exported fields: each is either empty or holds
  what \<^verbatim>\<open>Cid\<close> would compute from the fields. A struct literal, every block \<^verbatim>\<open>Cid\<close> has
  been called on without a field being assigned afterwards, and a block decoded from the
  encoding of its own fields are of this kind.
\<close>

definition caches_canonical :: "('t, 'e, 'k) Header env \<Rightarrow> ('t, 'e, 'k) Block \<Rightarrow> bool" where
  "caches_canonical env b \<longleftrightarrow>
     (cachedCid b = Undef \<or> canonical_cid env (exported b) = Return (cachedCid b)) \<and>
     (cachedBytes b = None \<or> Encode env (exported b) = Inr (cachedBytes b))"

text \<open>
  The law the encoding package is specified to satisfy: decoding is a left inverse of
  encoding on every value the encoder accepts.
\<close>

definition codec_roundtrip :: "'v env \<Rightarrow> bool" where
  "codec_roundtrip env \<longleftrightarrow>
     (\<forall>v d. Encode env v = Inr d \<longrightarrow> Decode env (bytes_of d) = Inr v)"

section \<open>The reflection-driven tuple decoding of the earlier block.go\<close>

text \<open>
  \<^verbatim>\<open>TupleToStruct\<close> works on \<^verbatim>\<open>reflect.Value\<close>s. A value of interface type is nil or
  holds a dynamic type (by name) and a value; a struct field holds \<open>None\<close> while it
  still has the zero value \<^verbatim>\<open>reflect.New\<close> gave it. \<^verbatim>\<open>Value.Index\<close> panics out of
  range, \<^verbatim>\<open>Value.Set\<close> panics on the zero \<^verbatim>\<open>Value\<close> (what \<^verbatim>\<open>Elem\<close> of a nil interface
  is) and on a value that is not assignable to the field's type.
\<close>

datatype 'v iface = NilIface | Boxed string "'v option"

datatype 'v rvalue =
    VStruct "(bool \<times> string \<times> 'v option) list"
  | VSlice "'v iface list"
  | VOther

datatype rtype = TStruct "(bool \<times> string) list" | TOther

text \<open>The loop of \<^verbatim>\<open>TupleToStruct\<close>: \<open>j\<close> counts the tuple values consumed.\<close>

fun TupleToStruct_loop ::
  "(bool \<times> string) list \<Rightarrow> 'v iface list \<Rightarrow> nat \<Rightarrow> (bool \<times> string \<times> 'v option) list outcome" where
  "TupleToStruct_loop [] tup j = Return []"
| "TupleToStruct_loop ((ex, ty) # fs) tup j =
     (if ex then
        (if j < length tup then
           (case tup ! j of
              NilIface \<Rightarrow> Panic ''reflect: call of reflect.Value.Set on zero Value''
            | Boxed ty' v \<Rightarrow>
                if ty' = ty then
                  (case TupleToStruct_loop fs tup (j + 1) of
                     Panic err \<Rightarrow> Panic err
                   | Return r \<Rightarrow> Return ((ex, ty, v) # r))
                else Panic ''reflect.Set: value is not assignable to type'')
         else Panic ''reflect: slice index out of range'')
      else
        (case TupleToStruct_loop fs tup j of
           Panic err \<Rightarrow> Panic err
         | Return r \<Rightarrow> Return ((ex, ty, None) # r)))"

definition TupleToStruct :: "'v rvalue \<Rightarrow> rtype \<Rightarrow> (error + 'v rvalue) outcome" where
  "TupleToStruct tupleVal structType =
     (case structType of
        TOther \<Rightarrow> Return (Inl ''TupleToStruct expects struct type'')
      | TStruct fs \<Rightarrow>
          (case tupleVal of
             VSlice tup \<Rightarrow>
               (case TupleToStruct_loop fs tup 0 of
                  Panic err \<Rightarrow> Panic err
                | Return r \<Rightarrow> Return (Inr (VStruct r)))
           | _ \<Rightarrow> Return (Inl ''TupleToStruct expects []interface{} value'')))"

text \<open>
  \<^verbatim>\<open>reflect.TypeOf(Block{})\<close> for the struct of that file: thirteen exported fields and
  the two caches.
\<close>

definition Block_type :: rtype where
  "Block_type = TStruct
     [(True, ''address.Address''), (True, ''Ticket''), (True, ''EPoStInfo''),
      (True, ''TipSetKey''), (True, ''types.Uint64''), (True, ''types.Uint64''),
      (True, ''cid.Cid''), (True, ''cid.Cid''), (True, ''types.TxMeta''),
      (True, ''types.Signature''), (True, ''types.Uint64''), (True, ''types.Signature''),
      (True, ''types.Uint64''), (False, ''cid.Cid''), (False, ''[]byte'')]"

text \<open>
  The unmarshal transform of \<^verbatim>\<open>blockAtlasEntry\<close>: what the decoder of that file applies
  to the tuple it has read for a \<^verbatim>\<open>Block\<close>.
\<close>

definition blockAtlasEntry_TransformUnmarshal :: "'v rvalue \<Rightarrow> (error + 'v rvalue) outcome" where
  "blockAtlasEntry_TransformUnmarshal serialForm = TupleToStruct serialForm Block_type"

text \<open>A tuple holding the first twelve fields of a block, and one holding fourteen values.\<close>

definition short_tuple :: "nat iface list" where
  "short_tuple =
     [Boxed ''address.Address'' (Some 1), Boxed ''Ticket'' (Some 2),
      Boxed ''EPoStInfo'' (Some 3), Boxed ''TipSetKey'' (Some 4),
      Boxed ''types.Uint64'' (Some 5), Boxed ''types.Uint64'' (Some 6),
      Boxed ''cid.Cid'' (Some 7), Boxed ''cid.Cid'' (Some 8),
      Boxed ''types.TxMeta'' (Some 9), Boxed ''types.Signature'' (Some 10),
      Boxed ''types.Uint64'' (Some 11), Boxed ''types.Signature'' (Some 12)]"

definition long_tuple :: "nat iface list" where
  "long_tuple = short_tuple @ [Boxed ''types.Uint64'' (Some 13), Boxed ''types.Uint64'' (Some 14)]"

section \<open>Package cborutil: the IPLD store\<close>

text \<open>
  The interface \<^verbatim>\<open>Blocks\<close> over a block storage whose state has type \<open>'s\<close>. The context
  argument of \<^verbatim>\<open>GetBlock\<close> (a ten second deadline in \<^verbatim>\<open>Get\<close>) has no counterpart: a
  lookup that runs out of time is one of the errors \<open>GetBlock\<close> may return.
\<close>

record 's Blocks =
  GetBlock :: "'s \<Rightarrow> cid \<Rightarrow> error + BasicBlock"
  AddBlock :: "'s \<Rightarrow> BasicBlock \<Rightarrow> error option \<times> 's"

record 's IpldStore =
  blocks :: "'s Blocks"

text \<open>\<^verbatim>\<open>func (s *IpldStore) Get(ctx, c, out) error\<close>; the decoded value is what \<^verbatim>\<open>out\<close> holds.\<close>

definition IpldStore_Get :: "'v env \<Rightarrow> 's IpldStore \<Rightarrow> 's \<Rightarrow> cid \<Rightarrow> error + 'v" where
  "IpldStore_Get env s st c =
     (case GetBlock (blocks s) st c of
        Inl err \<Rightarrow> Inl err
      | Inr blk \<Rightarrow> Decode env (bytes_of (blk_data blk)))"

text \<open>
  \<^verbatim>\<open>func (s *IpldStore) Put(ctx, v) (cid.Cid, error)\<close>: the pair returned, and the state of
  the block storage afterwards.
\<close>

definition IpldStore_Put ::
  "'v env \<Rightarrow> 's IpldStore \<Rightarrow> 's \<Rightarrow> 'v \<Rightarrow> (cid \<times> error option) \<times> 's" where
  "IpldStore_Put env s st v =
     (let mhType = BLAKE2B_MIN + 31; mhLen = - 1 in
      case Encode env v of
        Inl err \<Rightarrow> ((Undef, Some err), st)
      | Inr d \<Rightarrow>
          (case mh_Sum env (bytes_of d) mhType mhLen of
             Inl err \<Rightarrow> ((Undef, Some err), st)
           | Inr hash \<Rightarrow>
               (let c = NewCidV1 DagCBOR hash in
                case NewBlockWithCid env d c of
                  Inl err \<Rightarrow> ((Undef, Some err), st)
                | Inr blk \<Rightarrow>
                    (case AddBlock (blocks s) st blk of
                       (Some err, st') \<Rightarrow> ((Undef, Some err), st')
                     | (None, st') \<Rightarrow> ((c, None), st')))))"

text \<open>A block storage that returns what was added.\<close>

definition returns_what_was_added :: "'s Blocks \<Rightarrow> bool" where
  "returns_what_was_added bs \<longleftrightarrow>
     (\<forall>st blk st'. AddBlock bs st blk = (None, st') \<longrightarrow> GetBlock bs st' (blk_cid blk) = Inr blk)"

section \<open>The chain store\<close>

text \<open>
  Modelled from the spec: the chain store (package chain: \<^verbatim>\<open>chain.Store\<close>, its
  \<^verbatim>\<open>PutTipSetMetadata\<close> and \<^verbatim>\<open>SetHead\<close>) is not among the sources; only a test helper
  that calls it is. The state is the map from tipset keys to the recorded state root and
  receipts root, and the head pointer. The head-change event \<^verbatim>\<open>SetHead\<close> emits is not
  modelled.
\<close>

datatype store_error = InconsistentStateError | UnknownTipSetError | NotFoundError

record 'k ChainStore =
  tipSetMetadata :: "'k \<rightharpoonup> cid \<times> cid"
  head :: 'k

text \<open>
  Modelled from the spec: \<^verbatim>\<open>PutTipSetMetadata(tipset, stateRoot, receiptsRoot)\<close> is an
  idempotent insert; if an entry already exists for the same key with differing roots
  it fails with InconsistentStateError and nothing is overwritten.
\<close>

definition PutTipSetMetadata ::
  "'k ChainStore \<Rightarrow> 'k \<Rightarrow> cid \<Rightarrow> cid \<Rightarrow> store_error + 'k ChainStore" where
  "PutTipSetMetadata s k stateRoot receiptsRoot =
     (case tipSetMetadata s k of
        None \<Rightarrow> Inr (s\<lparr>tipSetMetadata := (tipSetMetadata s)(k \<mapsto> (stateRoot, receiptsRoot))\<rparr>)
      | Some entry \<Rightarrow>
          if entry = (stateRoot, receiptsRoot) then Inr s else Inl InconsistentStateError)"

text \<open>
  Modelled from the spec: \<^verbatim>\<open>SetHead(tipset)\<close> fails with UnknownTipSetError unless
  metadata for that key is already recorded; on success it updates the head pointer.
\<close>

definition SetHead :: "'k ChainStore \<Rightarrow> 'k \<Rightarrow> store_error + 'k ChainStore" where
  "SetHead s k =
     (case tipSetMetadata s k of
        None \<Rightarrow> Inl UnknownTipSetError
      | Some entry \<Rightarrow> Inr (s\<lparr>head := k\<rparr>))"

text \<open>
  The test helper \<^verbatim>\<open>requireNewChainStoreWithBlock\<close> of client_test.go, run on a store
  \<open>cs\<close> as \<^verbatim>\<open>chain.NewStore\<close> returned it: it sets the head to the genesis tipset, then
  puts the metadata of that tipset, and requires both calls to return no error.
\<close>

definition requireNewChainStoreWithBlock ::
  "'k ChainStore \<Rightarrow> 'k \<Rightarrow> cid \<Rightarrow> cid \<Rightarrow> store_error + 'k ChainStore" where
  "requireNewChainStoreWithBlock cs genTS root receipts =
     (case SetHead cs genTS of
        Inl err \<Rightarrow> Inl err
      | Inr cs1 \<Rightarrow> PutTipSetMetadata cs1 genTS root receipts)"

section \<open>A small environment for concrete runs\<close>

text \<open>
  A codec given by a finite table of headers and their encodings, whose decoder also
  accepts one more byte string (an indefinite-length form) for the first header; a
  digest that is the identity on the bytes; a block storage that is a finite map.
\<close>

definition test_header :: "int \<Rightarrow> slice \<Rightarrow> (unit, unit, unit) Header" where
  "test_header w sig =
     \<lparr>Miner = [0, 100], Ticket = (), EPoStInfo = (), Parents = (),
      ParentWeight = w, Height = 1, StateRoot = Undef, MessageReceipts = Undef,
      Messages = Undef, BLSAggregateSig = Some [7], Timestamp = 1580000000,
      BlockSig = sig, ForkSignaling = 0\<rparr>"

definition headerA :: "(unit, unit, unit) Header" where
  "headerA = test_header (2 ^ 64 + 1) (Some [9])"

definition headerB :: "(unit, unit, unit) Header" where
  "headerB = test_header (2 ^ 64 + 1) (Some [8])"

definition headerU :: "(unit, unit, unit) Header" where
  "headerU = test_header (2 ^ 64 + 1) None"

definition headerC :: "(unit, unit, unit) Header" where
  "headerC = test_header (2 ^ 64 + 2) (Some [9])"

definition test_table :: "((unit, unit, unit) Header \<times> byte list) list" where
  "test_table =
     [(headerA, [0x8d, 1]), (headerB, [0x8d, 2]), (headerU, [0x8d, 0]), (headerC, [0x8d, 3])]"

definition test_lenient :: "(byte list \<times> (unit, unit, unit) Header) list" where
  "test_lenient = [([0x9f, 1, 0xff], headerA)]"

definition test_env :: "(unit, unit, unit) Header env" where
  "test_env =
     \<lparr>Encode = (\<lambda>h. case map_of test_table h of
                      None \<Rightarrow> Inl ''unsupported value''
                    | Some bs \<Rightarrow> Inr (Some bs)),
      Decode = (\<lambda>bs. case map_of (map (\<lambda>(h, w). (w, h)) test_table @ test_lenient) bs of
                       None \<Rightarrow> Inl ''malformed input''
                     | Some h \<Rightarrow> Inr h),
      mh_Sum = (\<lambda>d t len. if t = BLAKE2B_MIN + 31 \<and> len = - 1 then Inr d
                           else Inl ''unsupported multihash''),
      DefaultHashFunction = BLAKE2B_MIN + 31,
      debug_verify = (\<lambda>d c. None),
      cbor_parse = (\<lambda>bs. None)\<rparr>"

definition test_store :: "(cid \<rightharpoonup> BasicBlock) IpldStore" where
  "test_store =
     \<lparr>blocks =
        \<lparr>GetBlock = (\<lambda>st c. case st c of None \<Rightarrow> Inl ''block not found'' | Some blk \<Rightarrow> Inr blk),
         AddBlock = (\<lambda>st blk. (None, st(blk_cid blk \<mapsto> blk)))\<rparr>\<rparr>"

definition blockA :: "(unit, unit, unit) Block" where
  "blockA = with_caches headerA Undef None"

definition blockB :: "(unit, unit, unit) Block" where
  "blockB = with_caches headerB Undef None"

definition blockC :: "(unit, unit, unit) Block" where
  "blockC = with_caches headerC Undef None"

definition wireA :: slice where
  "wireA = Some [0x8d, 1]"

definition wireA_lenient :: slice where
  "wireA_lenient = Some [0x9f, 1, 0xff]"

definition blockA_cached :: "(unit, unit, unit) Block" where
  "blockA_cached = blockA\<lparr>cachedBytes := wireA, cachedCid := NewCidV1 DagCBOR [0x8d, 1]\<rparr>"

definition blockA_lenient :: "(unit, unit, unit) Block" where
  "blockA_lenient = blockA\<lparr>cachedBytes := wireA_lenient\<rparr>"

definition test_blocks_A :: "cid \<rightharpoonup> BasicBlock" where
  "test_blocks_A =
     [NewCidV1 DagCBOR [0x8d, 1] \<mapsto>
        \<lparr>blk_data = Some [0x8d, 1], blk_cid = NewCidV1 DagCBOR [0x8d, 1]\<rparr>]"

definition genesis_store :: "nat ChainStore" where
  "genesis_store =
     \<lparr>tipSetMetadata = [0 \<mapsto> (NewCidV1 DagCBOR [1], NewCidV1 DagCBOR [2])], head = 0\<rparr>"

definition store_with_M1 :: "nat ChainStore" where
  "store_with_M1 =
     \<lparr>tipSetMetadata = [0 \<mapsto> (NewCidV1 DagCBOR [1], NewCidV1 DagCBOR [2]),
                        1 \<mapsto> (NewCidV1 DagCBOR [3], NewCidV1 DagCBOR [2])],
      head = 0\<rparr>"

section \<open>Auxiliary facts\<close>

lemma Prefix_Sum_v1:
  "Prefix_Sum env \<lparr>Version = 1, Codec = c, MhType = t, MhLength = - 1\<rparr> d =
     (case mh_Sum env (bytes_of d) t (- 1) of
        Inl err \<Rightarrow> Inl err
      | Inr hash \<Rightarrow> Inr (NewCidV1 c hash))"
  by (simp add: Prefix_Sum_def split: sum.splits)

lemma exported_cachedBytes [simp]: "exported (b\<lparr>cachedBytes := x\<rparr>) = exported b"
  by (simp add: exported_def Header.truncate_def)

lemma exported_cachedCid [simp]: "exported (b\<lparr>cachedCid := x\<rparr>) = exported b"
  by (simp add: exported_def Header.truncate_def)

lemma exported_with_caches [simp]: "exported (with_caches h c d) = h"
  by (simp add: exported_def with_caches_def Header.defs Block.defs)

lemma caches_with_caches [simp]:
  "cachedCid (with_caches h c d) = c" "cachedBytes (with_caches h c d) = d"
  by (simp_all add: with_caches_def Header.defs Block.defs)

lemma BlockSig_exported [simp]: "BlockSig (exported b) = BlockSig b"
  by (simp add: exported_def Header.truncate_def)

lemma ParentWeight_exported [simp]: "ParentWeight (exported b) = ParentWeight b"
  by (simp add: exported_def Header.truncate_def)

lemma wire_cid_not_Undef: "wire_cid env d \<noteq> Return Undef"
  by (simp add: wire_cid_def split: sum.splits)

text \<open>The three ways through \<^verbatim>\<open>Cid\<close>, with \<^verbatim>\<open>Prefix.Sum\<close> unfolded.\<close>

lemma Cid_unfold:
  "Cid env b =
     (if cachedCid b \<noteq> Undef then Return (cachedCid b, b)
      else if cachedBytes b \<noteq> None then
        (case wire_cid env (cachedBytes b) of
           Panic err \<Rightarrow> Panic err
         | Return c \<Rightarrow> Return (c, b\<lparr>cachedCid := c\<rparr>))
      else
        (case Encode env (exported b) of
           Inl err \<Rightarrow> Panic err
         | Inr d \<Rightarrow>
             (case wire_cid env d of
                Panic err \<Rightarrow> Panic err
              | Return c \<Rightarrow> Return (c, b\<lparr>cachedBytes := d, cachedCid := c\<rparr>))))"
  by (simp add: Cid_def wire_cid_def Prefix_Sum_v1 split: sum.splits)

lemma Cid_value_cached: "cachedCid b \<noteq> Undef \<Longrightarrow> Cid_value env b = Return (cachedCid b)"
  by (simp add: Cid_value_def Cid_unfold)

lemma Cid_value_bytes:
  "cachedCid b = Undef \<Longrightarrow> cachedBytes b \<noteq> None \<Longrightarrow>
     Cid_value env b = wire_cid env (cachedBytes b)"
  by (simp add: Cid_value_def Cid_unfold split: outcome.splits)

lemma Cid_value_fresh:
  "cachedCid b = Undef \<Longrightarrow> cachedBytes b = None \<Longrightarrow>
     Cid_value env b = canonical_cid env (exported b)"
  by (simp add: Cid_value_def Cid_unfold canonical_cid_def split: sum.splits outcome.splits)

lemma Cid_value_canonical:
  assumes "caches_canonical env b"
  shows "Cid_value env b = canonical_cid env (exported b)"
proof (cases "cachedCid b = Undef")
  case False
  with assms show ?thesis by (simp add: caches_canonical_def Cid_value_cached)
next
  case undef: True
  show ?thesis
  proof (cases "cachedBytes b = None")
    case True
    with undef show ?thesis by (rule Cid_value_fresh)
  next
    case False
    with assms have "Encode env (exported b) = Inr (cachedBytes b)"
      by (simp add: caches_canonical_def)
    then have "canonical_cid env (exported b) = wire_cid env (cachedBytes b)"
      by (simp add: canonical_cid_def)
    with Cid_value_bytes [OF undef False] show ?thesis by simp
  qed
qed

lemma Cid_Return_value: "Cid env b = Return (c, b') \<Longrightarrow> Cid_value env b = Return c"
  by (simp add: Cid_value_def)

lemma Cid_result:
  assumes "Cid env b = Return (c, b')"
  shows "c \<noteq> Undef \<and> cachedCid b' = c \<and> exported b' = exported b"
  using assms wire_cid_not_Undef [of env]
  by (auto simp add: Cid_unfold split: if_splits sum.splits outcome.splits)

lemma Cid_again:
  assumes "Cid env b = Return (c, b')"
  shows "Cid env b' = Return (c, b')"
proof -
  from Cid_result [OF assms] have "cachedCid b' \<noteq> Undef" "cachedCid b' = c" by simp_all
  then show ?thesis by (simp add: Cid_unfold)
qed

lemma Cid_keeps_canonical:
  assumes "caches_canonical env b" and "Cid env b = Return (c, b')"
  shows "caches_canonical env b'"
proof -
  from Cid_result [OF assms(2)] have r: "cachedCid b' = c" "exported b' = exported b" by simp_all
  from Cid_value_canonical [OF assms(1)] Cid_Return_value [OF assms(2)]
  have c: "canonical_cid env (exported b) = Return c" by simp
  have "cachedBytes b' = None \<or> Encode env (exported b) = Inr (cachedBytes b')"
    using assms
    by (auto simp add: Cid_unfold caches_canonical_def split: if_splits sum.splits outcome.splits)
  with r c show ?thesis by (simp add: caches_canonical_def)
qed

lemma fields_with_caches:
  "BlockSig (with_caches h c d) = BlockSig h"
  "ParentWeight (with_caches h c d) = ParentWeight h"
  by (simp_all add: with_caches_def Header.defs Block.defs)

lemma tmp_header:
  "\<lparr>Miner = Miner b, Ticket = Ticket b, EPoStInfo = EPoStInfo b,
           Parents = Parents b, ParentWeight = ParentWeight b, Height = Height b,
           StateRoot = StateRoot b, MessageReceipts = MessageReceipts b,
           Messages = Messages b, BLSAggregateSig = BLSAggregateSig b,
           Timestamp = Timestamp b, BlockSig = None,
           ForkSignaling = ForkSignaling b\<rparr> = clear_BlockSig (exported b)"
    by (simp add: clear_BlockSig_def exported_def Header.truncate_def)

lemma SignatureData_tmp:
  "SignatureData env b =
     (case ToNode env (with_caches (clear_BlockSig (exported b)) Undef None) of
        Panic err \<Rightarrow> Panic err
      | Return node \<Rightarrow> Return (RawData node))"
  unfolding SignatureData_def Let_def tmp_header ..

lemma ToNode_Return:
  assumes "ToNode env b = Return node"
  shows "Encode env (exported b) = Inr (RawData node)"
proof -
  from assms obtain d where d: "Encode env (exported b) = Inr d"
    by (cases "Encode env (exported b)") (simp_all add: ToNode_def)
  from assms d obtain hash where h: "mh_Sum env (bytes_of d) (BLAKE2B_MIN + 31) (- 1) = Inr hash"
    by (cases "mh_Sum env (bytes_of d) (BLAKE2B_MIN + 31) (- 1)") (simp_all add: ToNode_def)
  from assms d h obtain blk where b: "NewBlockWithCid env d (NewCidV1 DagCBOR hash) = Inr blk"
    by (cases "NewBlockWithCid env d (NewCidV1 DagCBOR hash)") (simp_all add: ToNode_def)
  then have bd: "blk_data blk = d"
    by (auto simp add: NewBlockWithCid_def split: option.splits)
  from assms d h b have "cbor_DecodeBlock env blk = Inr node"
    by (cases "cbor_DecodeBlock env blk") (simp_all add: ToNode_def)
  then have "RawData node = blk_data blk"
    by (auto simp add: cbor_DecodeBlock_def split: option.splits)
  with bd d show ?thesis by simp
qed


lemma codec_roundtripD:
  "codec_roundtrip env \<Longrightarrow> Encode env v = Inr d \<Longrightarrow> Decode env (bytes_of d) = Inr v"
  by (simp add: codec_roundtrip_def)

lemma SignatureData_Return:
  assumes "SignatureData env b = Return s"
  shows "Encode env (clear_BlockSig (exported b)) = Inr s"
proof -
  from assms obtain node
    where n: "ToNode env (with_caches (clear_BlockSig (exported b)) Undef None) = Return node"
      and s: "s = RawData node"
    by (cases "ToNode env (with_caches (clear_BlockSig (exported b)) Undef None)")
      (simp_all add: SignatureData_tmp)
  from ToNode_Return [OF n] s show ?thesis by simp
qed

lemma canonical_cid_Return:
  assumes "canonical_cid env h = Return c"
  shows "\<exists>d hash. Encode env h = Inr d \<and>
           mh_Sum env (bytes_of d) (DefaultHashFunction env) (- 1) = Inr hash \<and>
           c = NewCidV1 DagCBOR hash"
proof -
  from assms obtain d where d: "Encode env h = Inr d"
    by (cases "Encode env h") (simp_all add: canonical_cid_def)
  with assms have "wire_cid env d = Return c" by (simp add: canonical_cid_def)
  then obtain hash where "mh_Sum env (bytes_of d) (DefaultHashFunction env) (- 1) = Inr hash"
    and "c = NewCidV1 DagCBOR hash"
    by (cases "mh_Sum env (bytes_of d) (DefaultHashFunction env) (- 1)")
      (auto simp add: wire_cid_def)
  with d show ?thesis by blast
qed

subsection \<open>The small environment\<close>

lemmas header_defs = headerA_def headerB_def headerU_def headerC_def test_header_def

lemma test_Encode:
  "Encode test_env headerA = Inr (Some [0x8d, 1])"
  "Encode test_env headerB = Inr (Some [0x8d, 2])"
  "Encode test_env headerU = Inr (Some [0x8d, 0])"
  "Encode test_env headerC = Inr (Some [0x8d, 3])"
  by (simp_all add: test_env_def test_table_def header_defs)

lemma test_Decode:
  "Decode test_env [0x8d, 1] = Inr headerA"
  "Decode test_env [0x8d, 2] = Inr headerB"
  "Decode test_env [0x8d, 0] = Inr headerU"
  "Decode test_env [0x8d, 3] = Inr headerC"
  "Decode test_env [0x9f, 1, 0xff] = Inr headerA"
  by (simp_all add: test_env_def test_table_def test_lenient_def)

lemma test_wire_cid: "wire_cid test_env (Some bs) = Return (NewCidV1 DagCBOR bs)"
  by (simp add: wire_cid_def test_env_def bytes_of_def)

lemma test_codec_roundtrip: "codec_roundtrip test_env"
  unfolding codec_roundtrip_def
proof (intro allI impI)
  fix v d
  assume "Encode test_env v = Inr d"
  then have "(v, d) \<in> {(headerA, Some [0x8d, 1]), (headerB, Some [0x8d, 2]),
      (headerU, Some [0x8d, 0]), (headerC, Some [0x8d, 3])}"
    by (auto simp add: test_env_def test_table_def split: if_splits)
  then show "Decode test_env (bytes_of d) = Inr v"
    by (auto simp add: bytes_of_def test_Decode)
qed

lemma test_clear_BlockSig: "clear_BlockSig headerA = headerU" "clear_BlockSig headerB = headerU"
  by (simp_all add: clear_BlockSig_def header_defs)

lemma test_ToNode_U:
  "ToNode test_env (with_caches headerU Undef None) =
     Return \<lparr>RawData = Some [0x8d, 0], node_cid = NewCidV1 DagCBOR [0x8d, 0]\<rparr>"
proof -
  have 1: "mh_Sum test_env [0x8d, 0] (BLAKE2B_MIN + 31) (- 1) = Inr [0x8d, 0]"
    by (simp add: test_env_def)
  have 2: "debug_verify test_env d c = None" for d c by (simp add: test_env_def)
  have 3: "cbor_parse test_env bs = None" for bs by (simp add: test_env_def)
  show ?thesis
    by (simp add: ToNode_def test_Encode bytes_of_def 1 NewBlockWithCid_def 2
        cbor_DecodeBlock_def 3)
qed

lemma test_SignatureData:
  "SignatureData test_env blockA = Return (Some [0x8d, 0])"
  "SignatureData test_env blockB = Return (Some [0x8d, 0])"
  by (simp_all add: SignatureData_tmp blockA_def blockB_def test_clear_BlockSig test_ToNode_U)

lemma test_canonical:
  "caches_canonical test_env blockA" "caches_canonical test_env blockB"
  "caches_canonical test_env blockC"
  by (simp_all add: caches_canonical_def blockA_def blockB_def blockC_def)

lemma test_Cid_value:
  "Cid_value test_env blockA = Return (NewCidV1 DagCBOR [0x8d, 1])"
  "Cid_value test_env blockB = Return (NewCidV1 DagCBOR [0x8d, 2])"
  by (simp_all add: Cid_value_fresh blockA_def blockB_def canonical_cid_def test_Encode
      test_wire_cid)

lemma test_Cid_blockA:
  "Cid test_env blockA = Return (NewCidV1 DagCBOR [0x8d, 1], blockA_cached)"
  by (simp add: Cid_unfold blockA_def blockA_cached_def test_Encode test_wire_cid wireA_def)

lemma test_Equals_cached:
  "Equals test_env blockA blockA_cached = Return (True, blockA_cached, blockA_cached)"
proof -
  from Cid_again [OF test_Cid_blockA] test_Cid_blockA show ?thesis
    by (simp add: Equals_def)
qed

lemma blockA_cached_canonical: "caches_canonical test_env blockA_cached"
  by (rule Cid_keeps_canonical [OF test_canonical(1) test_Cid_blockA])

section \<open>Block identifiers and the wire bytes\<close>

text \<open>
  C9. For every non-nil byte slice \<open>b\<close> that \<^verbatim>\<open>DecodeBlock\<close> accepts, the block
  returned holds \<open>b\<close> itself as its cached bytes and no cached identifier, and its
  \<^verbatim>\<open>Cid()\<close> is the version 1 DagCBOR identifier of the hash of \<open>b\<close> (\<open>wire_cid env b\<close>,
  in which the encoder does not occur): the decoded fields are not encoded again.
\<close>

theorem DecodeBlock_Cid_hashes_input:
  assumes "DecodeBlock env b = Inr blk" and "b \<noteq> None"
  shows "cachedBytes blk = b \<and> cachedCid blk = Undef \<and> Cid_value env blk = wire_cid env b"
proof -
  from assms(1) obtain out where "blk = (with_caches out Undef None)\<lparr>cachedBytes := b\<rparr>"
    by (auto simp add: DecodeBlock_def split: sum.splits)
  then have c: "cachedBytes blk = b" "cachedCid blk = Undef" by simp_all
  with assms(2) Cid_value_bytes [of blk env] show ?thesis by simp
qed

text \<open>
  In the small environment the decoder accepts the bytes \<open>9f 01 ff\<close> for the header
  whose encoding is \<open>8d 01\<close>: the decoded block is identified by the former.
\<close>

theorem DecodeBlock_Cid_hashes_input_witness:
  "DecodeBlock test_env wireA_lenient = Inr (blockA\<lparr>cachedBytes := wireA_lenient\<rparr>)
   \<and> wireA_lenient \<noteq> None
   \<and> cachedBytes (blockA\<lparr>cachedBytes := wireA_lenient\<rparr>) = wireA_lenient
   \<and> Cid_value test_env (blockA\<lparr>cachedBytes := wireA_lenient\<rparr>)
       = Return (NewCidV1 DagCBOR [0x9f, 1, 0xff])
   \<and> canonical_cid test_env headerA = Return (NewCidV1 DagCBOR [0x8d, 1])"
proof -
  have d: "DecodeBlock test_env wireA_lenient = Inr (blockA\<lparr>cachedBytes := wireA_lenient\<rparr>)"
    by (simp add: DecodeBlock_def bytes_of_def test_Decode blockA_def wireA_lenient_def)
  have n: "wireA_lenient \<noteq> None" by (simp add: wireA_lenient_def)
  have c: "canonical_cid test_env headerA = Return (NewCidV1 DagCBOR [0x8d, 1])"
    by (simp add: canonical_cid_def test_Encode test_wire_cid)
  from DecodeBlock_Cid_hashes_input [OF d n] d n c show ?thesis
    by (simp add: test_wire_cid wireA_lenient_def)
qed

text \<open>
  C1. For every block \<open>h\<close> whose caches agree with its fields (a valid header: built
  from its fields, or one \<^verbatim>\<open>Cid\<close> was called on), whose encoding is \<open>d\<close> and for
  which the codec keeps its round-trip law, \<^verbatim>\<open>DecodeBlock\<close> of \<open>d\<close> succeeds, returns the
  fields of \<open>h\<close>, and the decoded block has the same \<^verbatim>\<open>Cid()\<close> as \<open>h\<close>.
\<close>

theorem DecodeBlock_Encode_same_Cid:
  assumes "Encode env (exported h) = Inr d"
    and "Decode env (bytes_of d) = Inr (exported h)"
    and "caches_canonical env h"
  shows "\<exists>blk. DecodeBlock env d = Inr blk \<and> exported blk = exported h \<and>
           Cid_value env blk = Cid_value env h"
proof -
  let ?blk = "(with_caches (exported h) Undef None)\<lparr>cachedBytes := d\<rparr>"
  have dec: "DecodeBlock env d = Inr ?blk"
    using assms(2) by (simp add: DecodeBlock_def)
  have "caches_canonical env ?blk"
    using assms(1) by (simp add: caches_canonical_def)
  then have "Cid_value env ?blk = canonical_cid env (exported h)"
    using Cid_value_canonical [of env ?blk] by simp
  with dec Cid_value_canonical [OF assms(3)] show ?thesis by simp
qed

theorem DecodeBlock_Encode_same_Cid_witness:
  "Encode test_env (exported blockA) = Inr wireA
   \<and> Decode test_env (bytes_of wireA) = Inr (exported blockA)
   \<and> caches_canonical test_env blockA
   \<and> Cid_value test_env blockA = Return (NewCidV1 DagCBOR [0x8d, 1])
   \<and> (\<exists>blk. DecodeBlock test_env wireA = Inr blk \<and> exported blk = exported blockA \<and>
         Cid_value test_env blk = Return (NewCidV1 DagCBOR [0x8d, 1]))"
proof -
  have e: "Encode test_env (exported blockA) = Inr wireA"
    by (simp add: blockA_def test_Encode wireA_def)
  have d: "Decode test_env (bytes_of wireA) = Inr (exported blockA)"
    by (simp add: blockA_def test_Decode wireA_def bytes_of_def)
  from DecodeBlock_Encode_same_Cid [OF e d test_canonical(1)] e d test_Cid_value(1)
    test_canonical(1)
  show ?thesis by simp
qed

section \<open>Memoisation of the identifier\<close>

text \<open>
  C8, as the code has it. For every block, a call of \<^verbatim>\<open>Cid()\<close> that returns \<open>c\<close>
  stores \<open>c\<close> in \<^verbatim>\<open>cachedCid\<close>, \<open>c\<close> is not \<^verbatim>\<open>cid.Undef\<close>, the exported fields are
  untouched, and every further call returns \<open>c\<close> again and changes nothing. What \<open>c\<close> is
  depends on the caches the block was built with: for a block whose caches agree with its
  fields (a struct literal, or a block \<^verbatim>\<open>Cid\<close> was read on before) \<open>c\<close> is
  \<open>canonical_cid\<close> of the exported fields, a function of the header fields alone, and
  the caches still agree afterwards; for a block that holds cached bytes and no cached
  identifier (as \<^verbatim>\<open>DecodeBlock\<close> returns it) \<open>c\<close> is the identifier of those bytes.
\<close>

theorem Cid_memoized:
  assumes "Cid env b = Return (c, b')"
  shows "Cid env b' = Return (c, b') \<and> cachedCid b' = c \<and> c \<noteq> Undef \<and>
         exported b' = exported b \<and>
         (caches_canonical env b \<longrightarrow>
            canonical_cid env (exported b) = Return c \<and> caches_canonical env b') \<and>
         (cachedCid b = Undef \<and> cachedBytes b \<noteq> None \<longrightarrow>
            wire_cid env (cachedBytes b) = Return c \<and> cachedBytes b' = cachedBytes b)"
proof (intro conjI impI)
  show "Cid env b' = Return (c, b')" by (rule Cid_again [OF assms])
  show "cachedCid b' = c" "c \<noteq> Undef" "exported b' = exported b"
    using Cid_result [OF assms] by simp_all
next
  assume can: "caches_canonical env b"
  from Cid_value_canonical [OF can] Cid_Return_value [OF assms]
  show "canonical_cid env (exported b) = Return c" by simp
  show "caches_canonical env b'" by (rule Cid_keeps_canonical [OF can assms])
next
  assume w: "cachedCid b = Undef \<and> cachedBytes b \<noteq> None"
  then have "Cid_value env b = wire_cid env (cachedBytes b)"
    by (simp add: Cid_value_bytes)
  with Cid_Return_value [OF assms] show "wire_cid env (cachedBytes b) = Return c" by simp
  from w assms show "cachedBytes b' = cachedBytes b"
    by (auto simp add: Cid_unfold split: outcome.splits)
qed

text \<open>
  The block \<^verbatim>\<open>DecodeBlock\<close> returns for the encoding \<open>8d 01\<close> of its own fields meets
  both conditions.
\<close>

theorem Cid_memoized_witness:
  "Cid test_env (blockA\<lparr>cachedBytes := wireA\<rparr>)
     = Return (NewCidV1 DagCBOR [0x8d, 1], blockA_cached)
   \<and> caches_canonical test_env (blockA\<lparr>cachedBytes := wireA\<rparr>)
   \<and> cachedCid (blockA\<lparr>cachedBytes := wireA\<rparr>) = Undef
   \<and> cachedBytes (blockA\<lparr>cachedBytes := wireA\<rparr>) \<noteq> None
   \<and> Cid test_env blockA_cached = Return (NewCidV1 DagCBOR [0x8d, 1], blockA_cached)
   \<and> cachedCid blockA_cached = NewCidV1 DagCBOR [0x8d, 1]
   \<and> exported blockA_cached = exported (blockA\<lparr>cachedBytes := wireA\<rparr>)
   \<and> canonical_cid test_env (exported (blockA\<lparr>cachedBytes := wireA\<rparr>))
       = Return (NewCidV1 DagCBOR [0x8d, 1])
   \<and> wire_cid test_env (cachedBytes (blockA\<lparr>cachedBytes := wireA\<rparr>))
       = Return (NewCidV1 DagCBOR [0x8d, 1])"
proof -
  have run: "Cid test_env (blockA\<lparr>cachedBytes := wireA\<rparr>)
     = Return (NewCidV1 DagCBOR [0x8d, 1], blockA_cached)"
    by (simp add: Cid_unfold blockA_def blockA_cached_def test_wire_cid wireA_def)
  have can: "caches_canonical test_env (blockA\<lparr>cachedBytes := wireA\<rparr>)"
    by (simp add: caches_canonical_def blockA_def test_Encode wireA_def)
  have u: "cachedCid (blockA\<lparr>cachedBytes := wireA\<rparr>) = Undef"
    by (simp add: blockA_def)
  have n: "cachedBytes (blockA\<lparr>cachedBytes := wireA\<rparr>) \<noteq> None"
    by (simp add: wireA_def)
  from Cid_memoized [OF run] run can u n show ?thesis by simp
qed

text \<open>
  The claim as stated fails: neither of the two blocks \<^verbatim>\<open>DecodeBlock\<close> returns for the
  bytes \<open>8d 01\<close> and \<open>9f 01 ff\<close> has a field assigned after its construction, their header
  fields are the same, and \<^verbatim>\<open>Cid()\<close> gives them different identifiers; the second is
  not the identifier \<open>canonical_cid\<close> computes from the header fields.
\<close>

theorem Cid_of_decoded_block_counterexample:
  "DecodeBlock test_env wireA = Inr (blockA\<lparr>cachedBytes := wireA\<rparr>)
   \<and> DecodeBlock test_env wireA_lenient = Inr blockA_lenient
   \<and> exported (blockA\<lparr>cachedBytes := wireA\<rparr>) = exported blockA_lenient
   \<and> Cid_value test_env (blockA\<lparr>cachedBytes := wireA\<rparr>) = Return (NewCidV1 DagCBOR [0x8d, 1])
   \<and> Cid_value test_env blockA_lenient = Return (NewCidV1 DagCBOR [0x9f, 1, 0xff])
   \<and> canonical_cid test_env (exported blockA_lenient) = Return (NewCidV1 DagCBOR [0x8d, 1])
   \<and> NewCidV1 DagCBOR [0x9f, 1, 0xff] \<noteq> NewCidV1 DagCBOR [0x8d, 1 :: byte]"
  by (simp add: DecodeBlock_def Cid_value_def Cid_unfold blockA_lenient_def blockA_def
      wireA_def wireA_lenient_def bytes_of_def test_Decode test_Encode test_wire_cid
      canonical_cid_def)

section \<open>Equality of blocks\<close>

text \<open>
  C7, as the code has it. Whenever \<^verbatim>\<open>Equals\<close> returns, its result is true exactly when
  the two blocks have the same \<^verbatim>\<open>Cid()\<close>; and two blocks with the same exported fields
  are equal provided the caches of each agree with its fields (as for a block and a copy
  of it whose identifier has already been computed).
\<close>

theorem Equals_iff_same_Cid:
  assumes "Equals env a b = Return (r, a', b')"
  shows "(r \<longleftrightarrow> Cid_value env a = Cid_value env b) \<and>
         (exported a = exported b \<and> caches_canonical env a \<and> caches_canonical env b \<longrightarrow> r)"
proof -
  from assms obtain ca cb where a: "Cid env a = Return (ca, a')"
    and b: "Cid env b = Return (cb, b')" and r: "r = (ca = cb)"
    by (auto simp add: Equals_def split: outcome.splits)
  have va: "Cid_value env a = Return ca" and vb: "Cid_value env b = Return cb"
    using a b by (simp_all add: Cid_value_def)
  have "r" if "exported a = exported b" "caches_canonical env a" "caches_canonical env b"
    using that va vb r Cid_value_canonical [of env a] Cid_value_canonical [of env b] by simp
  with va vb r show ?thesis by auto
qed

theorem Equals_iff_same_Cid_witness:
  "Equals test_env blockA blockA_cached = Return (True, blockA_cached, blockA_cached)
   \<and> exported blockA = exported blockA_cached
   \<and> cachedBytes blockA \<noteq> cachedBytes blockA_cached
   \<and> caches_canonical test_env blockA \<and> caches_canonical test_env blockA_cached
   \<and> Cid_value test_env blockA = Cid_value test_env blockA_cached"
proof -
  have "cachedBytes blockA \<noteq> cachedBytes blockA_cached"
    by (simp add: blockA_def blockA_cached_def wireA_def)
  moreover have "exported blockA = exported blockA_cached"
    by (simp add: blockA_cached_def)
  ultimately show ?thesis
    using Equals_iff_same_Cid [OF test_Equals_cached] test_Equals_cached
      test_canonical(1) blockA_cached_canonical
    by simp
qed

text \<open>
  The claim as stated fails: the two blocks \<^verbatim>\<open>DecodeBlock\<close> returns for the bytes
  \<open>8d 01\<close> and \<open>9f 01 ff\<close> have the same exported fields and different cached bytes, and
  \<^verbatim>\<open>Equals\<close> is false on them.
\<close>

theorem Equals_different_caches_counterexample:
  "DecodeBlock test_env wireA = Inr (blockA\<lparr>cachedBytes := wireA\<rparr>)
   \<and> DecodeBlock test_env wireA_lenient = Inr blockA_lenient
   \<and> exported (blockA\<lparr>cachedBytes := wireA\<rparr>) = exported blockA_lenient
   \<and> Equals test_env (blockA\<lparr>cachedBytes := wireA\<rparr>) blockA_lenient =
       Return (False, blockA_cached,
         blockA_lenient\<lparr>cachedCid := NewCidV1 DagCBOR [0x9f, 1, 0xff]\<rparr>)"
  by (simp add: DecodeBlock_def Equals_def Cid_unfold blockA_lenient_def blockA_cached_def
      blockA_def wireA_def wireA_lenient_def bytes_of_def test_Decode test_wire_cid)

section \<open>The bytes that are signed\<close>

text \<open>
  C2. Let the codec keep its round-trip law, let \<open>a\<close> and \<open>b\<close> agree on every exported
  field except \<^verbatim>\<open>BlockSig\<close>, where they differ, let the caches of each agree with its
  fields, and let the digests of their two encodings not collide. Then
  \<^verbatim>\<open>SignatureData\<close> gives the same outcome on both, their identifiers differ, and every
  block with the same signature data as \<open>a\<close> agrees with \<open>a\<close> on all fields other than
  \<^verbatim>\<open>BlockSig\<close>: each of them contributes to the signed bytes.
\<close>

theorem SignatureData_excludes_BlockSig:
  assumes law: "codec_roundtrip env"
    and agree: "clear_BlockSig (exported a) = clear_BlockSig (exported b)"
    and differ: "BlockSig a \<noteq> BlockSig b"
    and ca: "caches_canonical env a" and cb: "caches_canonical env b"
    and ida: "Cid_value env a = Return ia" and idb: "Cid_value env b = Return ib"
    and nocoll: "\<And>da db. Encode env (exported a) = Inr da \<Longrightarrow> Encode env (exported b) = Inr db \<Longrightarrow>
        bytes_of da \<noteq> bytes_of db \<Longrightarrow>
        mh_Sum env (bytes_of da) (DefaultHashFunction env) (- 1) \<noteq>
        mh_Sum env (bytes_of db) (DefaultHashFunction env) (- 1)"
  shows "SignatureData env a = SignatureData env b \<and> ia \<noteq> ib \<and>
         (\<forall>c s. SignatureData env a = Return s \<and> SignatureData env c = Return s \<longrightarrow>
                clear_BlockSig (exported c) = clear_BlockSig (exported a))"
proof (intro conjI allI impI)
  show "SignatureData env a = SignatureData env b"
    by (simp only: SignatureData_tmp agree)
next
  from ida Cid_value_canonical [OF ca] have "canonical_cid env (exported a) = Return ia" by simp
  from canonical_cid_Return [OF this]
  obtain da ha where da: "Encode env (exported a) = Inr da"
    and ha: "mh_Sum env (bytes_of da) (DefaultHashFunction env) (- 1) = Inr ha"
    and ia: "ia = NewCidV1 DagCBOR ha"
    by blast
  from idb Cid_value_canonical [OF cb] have "canonical_cid env (exported b) = Return ib" by simp
  from canonical_cid_Return [OF this]
  obtain db hb where db: "Encode env (exported b) = Inr db"
    and hb: "mh_Sum env (bytes_of db) (DefaultHashFunction env) (- 1) = Inr hb"
    and ib: "ib = NewCidV1 DagCBOR hb"
    by blast
  have dec: "Decode env (bytes_of da) = Inr (exported a)"
    "Decode env (bytes_of db) = Inr (exported b)"
    using codec_roundtripD [OF law da] codec_roundtripD [OF law db] by simp_all
  have "exported a \<noteq> exported b"
  proof
    assume "exported a = exported b"
    then have "BlockSig (exported a) = BlockSig (exported b)" by (rule arg_cong)
    with differ show False by simp
  qed
  with dec have "bytes_of da \<noteq> bytes_of db" by auto
  from nocoll [OF da db this] ha hb have "ha \<noteq> hb" by simp
  with ia ib show "ia \<noteq> ib" by simp
next
  fix c s
  assume "SignatureData env a = Return s \<and> SignatureData env c = Return s"
  then have sa: "SignatureData env a = Return s" and sc: "SignatureData env c = Return s"
    by simp_all
  from codec_roundtripD [OF law SignatureData_Return [OF sa]]
    codec_roundtripD [OF law SignatureData_Return [OF sc]]
  show "clear_BlockSig (exported c) = clear_BlockSig (exported a)" by simp
qed

theorem SignatureData_excludes_BlockSig_witness:
  "codec_roundtrip test_env
   \<and> clear_BlockSig (exported blockA) = clear_BlockSig (exported blockB)
   \<and> BlockSig blockA \<noteq> BlockSig blockB
   \<and> SignatureData test_env blockA = Return (Some [0x8d, 0])
   \<and> SignatureData test_env blockB = Return (Some [0x8d, 0])
   \<and> Cid_value test_env blockA = Return (NewCidV1 DagCBOR [0x8d, 1])
   \<and> Cid_value test_env blockB = Return (NewCidV1 DagCBOR [0x8d, 2])
   \<and> NewCidV1 DagCBOR [0x8d, 1] \<noteq> NewCidV1 DagCBOR [0x8d, 2 :: byte]"
proof -
  have agree: "clear_BlockSig (exported blockA) = clear_BlockSig (exported blockB)"
    by (simp add: blockA_def blockB_def test_clear_BlockSig)
  have differ: "BlockSig blockA \<noteq> BlockSig blockB"
    by (simp add: blockA_def blockB_def fields_with_caches header_defs)
  have nocoll: "mh_Sum test_env (bytes_of da) (DefaultHashFunction test_env) (- 1) \<noteq>
        mh_Sum test_env (bytes_of db) (DefaultHashFunction test_env) (- 1)"
    if "bytes_of da \<noteq> bytes_of db" for da db
    using that by (simp add: test_env_def)
  note th = SignatureData_excludes_BlockSig [OF test_codec_roundtrip agree differ
      test_canonical(1) test_canonical(2) test_Cid_value(1) test_Cid_value(2) nocoll]
  have ne: "NewCidV1 DagCBOR [0x8d, 1] \<noteq> NewCidV1 DagCBOR [0x8d, 2 :: byte]"
    by (rule th [THEN conjunct2, THEN conjunct1])
  show ?thesis
    by (intro conjI)
      (rule test_codec_roundtrip agree differ test_SignatureData test_Cid_value ne)+
qed

section \<open>The parent weight\<close>




section \<open>Tuple decoding\<close>

text \<open>
  For a slice and a struct type \<^verbatim>\<open>TupleToStruct\<close> never returns an error: whatever the
  length of the tuple, it panics or returns a struct.
\<close>

lemma TupleToStruct_never_errors_on_arity:
  "TupleToStruct (VSlice tup) (TStruct fs) \<noteq> Return (Inl err)"
  by (simp add: TupleToStruct_def split: outcome.splits)

text \<open>
  C4, where the code departs from it. A tuple of twelve values, and the empty tuple, for
  the thirteen exported fields of \<^verbatim>\<open>Block\<close>: \<^verbatim>\<open>tupleVal.Index(j)\<close> is reached with
  \<open>j\<close> out of range and \<^verbatim>\<open>TupleToStruct\<close> panics instead of returning an error.
\<close>

theorem TupleToStruct_short_tuple_panics:
  "length short_tuple = 12
   \<and> TupleToStruct (VSlice short_tuple) Block_type = Panic ''reflect: slice index out of range''
   \<and> blockAtlasEntry_TransformUnmarshal (VSlice short_tuple)
       = Panic ''reflect: slice index out of range''
   \<and> blockAtlasEntry_TransformUnmarshal (VSlice ([] :: nat iface list))
       = Panic ''reflect: slice index out of range''"
  by (simp add: blockAtlasEntry_TransformUnmarshal_def TupleToStruct_def Block_type_def
      short_tuple_def)

text \<open>A tuple of fourteen values is accepted; the last value is dropped.\<close>

lemma TupleToStruct_long_tuple:
  "length long_tuple = 14 \<and>
   TupleToStruct (VSlice long_tuple) Block_type =
     Return (Inr (VStruct
       [(True, ''address.Address'', Some 1), (True, ''Ticket'', Some 2),
        (True, ''EPoStInfo'', Some 3), (True, ''TipSetKey'', Some 4),
        (True, ''types.Uint64'', Some 5), (True, ''types.Uint64'', Some 6),
        (True, ''cid.Cid'', Some 7), (True, ''cid.Cid'', Some 8),
        (True, ''types.TxMeta'', Some 9), (True, ''types.Signature'', Some 10),
        (True, ''types.Uint64'', Some 11), (True, ''types.Signature'', Some 12),
        (True, ''types.Uint64'', Some 13), (False, ''cid.Cid'', None),
        (False, ''[]byte'', None)]))"
  by (simp add: TupleToStruct_def Block_type_def short_tuple_def long_tuple_def)

section \<open>The IPLD store\<close>

lemma IpldStore_Put_cases:
  "IpldStore_Put env s st v =
     (case Encode env v of
        Inl err \<Rightarrow> ((Undef, Some err), st)
      | Inr d \<Rightarrow>
          (case mh_Sum env (bytes_of d) (BLAKE2B_MIN + 31) (- 1) of
             Inl err \<Rightarrow> ((Undef, Some err), st)
           | Inr hash \<Rightarrow>
               (case debug_verify env d (NewCidV1 DagCBOR hash) of
                  Some err \<Rightarrow> ((Undef, Some err), st)
                | None \<Rightarrow>
                    (case AddBlock (blocks s) st
                            \<lparr>blk_data = d, blk_cid = NewCidV1 DagCBOR hash\<rparr> of
                       (Some err, st') \<Rightarrow> ((Undef, Some err), st')
                     | (None, st') \<Rightarrow> ((NewCidV1 DagCBOR hash, None), st')))))"
  by (simp add: IpldStore_Put_def NewBlockWithCid_def Let_def
      split: sum.splits option.splits)

lemma IpldStore_Put_failure:
  assumes "IpldStore_Put env s st v = ((c, Some err), st')"
  shows "c = Undef"
  using assms
  by (auto simp add: IpldStore_Put_cases split: sum.splits option.splits prod.splits)

lemma IpldStore_Put_success:
  assumes "IpldStore_Put env s st v = ((c, None), st')"
  shows "\<exists>d hash. Encode env v = Inr d \<and>
           mh_Sum env (bytes_of d) (BLAKE2B_MIN + 31) (- 1) = Inr hash \<and>
           c = NewCidV1 DagCBOR hash \<and>
           AddBlock (blocks s) st \<lparr>blk_data = d, blk_cid = c\<rparr> = (None, st')"
  using assms
  by (auto simp add: IpldStore_Put_cases split: sum.splits option.splits prod.splits)

text \<open>
  C10. Let the block storage return what was added and the codec keep its round-trip
  law. If \<open>v\<close> encodes to \<open>d\<close>, \<^verbatim>\<open>mh.Sum\<close> gives the multihash \<open>hash\<close> of \<open>d\<close> for the
  code \<^verbatim>\<open>BLAKE2B_MIN + 31\<close> (blake2b-256) and the default length, and neither the block
  constructor nor \<^verbatim>\<open>AddBlock\<close> reports an error, then \<^verbatim>\<open>Put\<close> returns the version 1
  DagCBOR identifier of \<open>hash\<close> with a nil error, and \<^verbatim>\<open>Get\<close> of that identifier on the
  resulting storage decodes \<open>v\<close>. Whatever \<^verbatim>\<open>Put\<close> returns: with a nil error the
  identifier is of that form and \<^verbatim>\<open>Get\<close> returns \<open>v\<close>; with an error the identifier is
  \<^verbatim>\<open>cid.Undef\<close>, and the storage is untouched unless the error is \<^verbatim>\<open>AddBlock\<close>'s.
\<close>

theorem IpldStore_Put_Get_roundtrip:
  assumes store: "returns_what_was_added (blocks s)"
    and law: "codec_roundtrip env"
  shows "(Encode env v = Inr d \<and>
          mh_Sum env (bytes_of d) (BLAKE2B_MIN + 31) (- 1) = Inr hash \<and>
          debug_verify env d (NewCidV1 DagCBOR hash) = None \<and>
          AddBlock (blocks s) st \<lparr>blk_data = d, blk_cid = NewCidV1 DagCBOR hash\<rparr>
            = (None, st1) \<longrightarrow>
            IpldStore_Put env s st v = ((NewCidV1 DagCBOR hash, None), st1) \<and>
            IpldStore_Get env s st1 (NewCidV1 DagCBOR hash) = Inr v) \<and>
         (\<forall>c e st'. IpldStore_Put env s st v = ((c, e), st') \<longrightarrow>
            (e = None \<longrightarrow>
               (\<exists>d hash. Encode env v = Inr d \<and>
                  mh_Sum env (bytes_of d) (BLAKE2B_MIN + 31) (- 1) = Inr hash \<and>
                  c = NewCidV1 DagCBOR hash) \<and>
               IpldStore_Get env s st' c = Inr v) \<and>
            (e \<noteq> None \<longrightarrow>
               c = Undef \<and>
               (st' = st \<or> (\<exists>blk. AddBlock (blocks s) st blk = (e, st')))))"
proof -
  have get: "IpldStore_Get env s st' c = Inr v"
    if d: "Encode env v = Inr d"
      and add: "AddBlock (blocks s) st \<lparr>blk_data = d, blk_cid = c\<rparr> = (None, st')"
    for d c st'
  proof -
    from store add have "GetBlock (blocks s) st' c = Inr \<lparr>blk_data = d, blk_cid = c\<rparr>"
      unfolding returns_what_was_added_def by fastforce
    with codec_roundtripD [OF law d] show ?thesis
      by (simp add: IpldStore_Get_def)
  qed
  have ok: "IpldStore_Put env s st v = ((NewCidV1 DagCBOR hash, None), st1) \<and>
            IpldStore_Get env s st1 (NewCidV1 DagCBOR hash) = Inr v"
    if d: "Encode env v = Inr d"
      and h: "mh_Sum env (bytes_of d) (BLAKE2B_MIN + 31) (- 1) = Inr hash"
      and v: "debug_verify env d (NewCidV1 DagCBOR hash) = None"
      and add: "AddBlock (blocks s) st \<lparr>blk_data = d, blk_cid = NewCidV1 DagCBOR hash\<rparr>
            = (None, st1)"
  proof
    show "IpldStore_Put env s st v = ((NewCidV1 DagCBOR hash, None), st1)"
      by (simp add: IpldStore_Put_cases d h v add)
    show "IpldStore_Get env s st1 (NewCidV1 DagCBOR hash) = Inr v"
      by (rule get [OF d add])
  qed
  have res: "(e = None \<longrightarrow>
               (\<exists>d hash. Encode env v = Inr d \<and>
                  mh_Sum env (bytes_of d) (BLAKE2B_MIN + 31) (- 1) = Inr hash \<and>
                  c = NewCidV1 DagCBOR hash) \<and>
               IpldStore_Get env s st' c = Inr v) \<and>
            (e \<noteq> None \<longrightarrow>
               c = Undef \<and>
               (st' = st \<or> (\<exists>blk. AddBlock (blocks s) st blk = (e, st'))))"
    if put: "IpldStore_Put env s st v = ((c, e), st')" for c e st'
  proof (cases e)
    case None
    with put have "IpldStore_Put env s st v = ((c, None), st')" by simp
    from IpldStore_Put_success [OF this]
    obtain d hash where d: "Encode env v = Inr d"
      and h: "mh_Sum env (bytes_of d) (BLAKE2B_MIN + 31) (- 1) = Inr hash"
      and c: "c = NewCidV1 DagCBOR hash"
      and add: "AddBlock (blocks s) st \<lparr>blk_data = d, blk_cid = c\<rparr> = (None, st')"
      by blast
    from d h c get [OF d add] None show ?thesis by blast
  next
    case (Some err)
    with put have p: "IpldStore_Put env s st v = ((c, Some err), st')" by simp
    from IpldStore_Put_failure [OF p] have "c = Undef" .
    moreover from p have "st' = st \<or> (\<exists>blk. AddBlock (blocks s) st blk = (Some err, st'))"
      by (auto simp add: IpldStore_Put_cases split: sum.splits option.splits prod.splits)
    ultimately show ?thesis using Some by simp
  qed
  from ok res show ?thesis by blast
qed

lemma test_store_returns: "returns_what_was_added (blocks test_store)"
  by (simp add: returns_what_was_added_def test_store_def)

theorem IpldStore_Put_Get_roundtrip_witness:
  "returns_what_was_added (blocks test_store) \<and> codec_roundtrip test_env
   \<and> Encode test_env headerA = Inr (Some [0x8d, 1])
   \<and> mh_Sum test_env (bytes_of (Some [0x8d, 1])) (BLAKE2B_MIN + 31) (- 1) = Inr [0x8d, 1]
   \<and> debug_verify test_env (Some [0x8d, 1]) (NewCidV1 DagCBOR [0x8d, 1]) = None
   \<and> AddBlock (blocks test_store) Map.empty
        \<lparr>blk_data = Some [0x8d, 1], blk_cid = NewCidV1 DagCBOR [0x8d, 1]\<rparr>
       = (None, test_blocks_A)
   \<and> IpldStore_Put test_env test_store Map.empty headerA
       = ((NewCidV1 DagCBOR [0x8d, 1], None), test_blocks_A)
   \<and> IpldStore_Get test_env test_store test_blocks_A (NewCidV1 DagCBOR [0x8d, 1])
       = Inr headerA
   \<and> IpldStore_Put test_env test_store Map.empty (test_header 0 None)
       = ((Undef, Some ''unsupported value''), Map.empty)"
proof -
  have e: "Encode test_env headerA = Inr (Some [0x8d, 1])" by (rule test_Encode(1))
  have h: "mh_Sum test_env (bytes_of (Some [0x8d, 1])) (BLAKE2B_MIN + 31) (- 1) = Inr [0x8d, 1]"
    by (simp add: test_env_def bytes_of_def)
  have v: "debug_verify test_env (Some [0x8d, 1]) (NewCidV1 DagCBOR [0x8d, 1]) = None"
    by (simp add: test_env_def)
  have a: "AddBlock (blocks test_store) Map.empty
        \<lparr>blk_data = Some [0x8d, 1], blk_cid = NewCidV1 DagCBOR [0x8d, 1]\<rparr>
       = (None, test_blocks_A)"
    by (simp add: test_store_def test_blocks_A_def)
  have f: "IpldStore_Put test_env test_store Map.empty (test_header 0 None)
       = ((Undef, Some ''unsupported value''), Map.empty)"
    by (simp add: IpldStore_Put_cases test_env_def test_table_def header_defs)
  note th = IpldStore_Put_Get_roundtrip [OF test_store_returns test_codec_roundtrip,
      of headerA "Some [0x8d, 1]" "[0x8d, 1]" Map.empty test_blocks_A]
  from th e h v a have "IpldStore_Put test_env test_store Map.empty headerA
       = ((NewCidV1 DagCBOR [0x8d, 1], None), test_blocks_A)
   \<and> IpldStore_Get test_env test_store test_blocks_A (NewCidV1 DagCBOR [0x8d, 1])
       = Inr headerA"
    by blast
  with test_store_returns test_codec_roundtrip e h v a f show ?thesis by blast
qed

section \<open>The chain store\<close>

text \<open>
  On the modelled store the test helper succeeds exactly when the metadata of the genesis
  tipset is already recorded with the roots it puts.
\<close>

lemma requireNewChainStoreWithBlock_succeeds:
  "requireNewChainStoreWithBlock cs g root receipts = Inr cs' \<longleftrightarrow>
     tipSetMetadata cs g = Some (root, receipts) \<and> cs' = cs\<lparr>head := g\<rparr>"
  by (auto simp add: requireNewChainStoreWithBlock_def SetHead_def PutTipSetMetadata_def
      split: option.splits if_splits)

text \<open>
  C5. \<^verbatim>\<open>SetHead\<close> fails with UnknownTipSetError whenever no metadata is recorded for
  the key; when metadata is recorded it succeeds, the head pointer is the key and the
  recorded metadata is unchanged; and it succeeds in no other case.
\<close>

theorem SetHead_requires_metadata:
  "(tipSetMetadata s k = None \<longrightarrow> SetHead s k = Inl UnknownTipSetError) \<and>
   (tipSetMetadata s k \<noteq> None \<longrightarrow>
      SetHead s k = Inr (s\<lparr>head := k\<rparr>) \<and> head (s\<lparr>head := k\<rparr>) = k \<and>
      tipSetMetadata (s\<lparr>head := k\<rparr>) = tipSetMetadata s) \<and>
   (\<forall>s'. SetHead s k = Inr s' \<longrightarrow> tipSetMetadata s k \<noteq> None \<and> head s' = k)"
  by (auto simp add: SetHead_def split: option.splits)

theorem SetHead_requires_metadata_witness:
  "tipSetMetadata genesis_store 1 = None
   \<and> SetHead genesis_store 1 = Inl UnknownTipSetError
   \<and> PutTipSetMetadata genesis_store 1 (NewCidV1 DagCBOR [3]) (NewCidV1 DagCBOR [2])
       = Inr store_with_M1
   \<and> SetHead store_with_M1 1 = Inr (store_with_M1\<lparr>head := 1\<rparr>)
   \<and> head (store_with_M1\<lparr>head := 1\<rparr>) = 1"
proof -
  have n: "tipSetMetadata genesis_store 1 = None"
    by (simp add: genesis_store_def)
  have m: "tipSetMetadata store_with_M1 1 \<noteq> None"
    by (simp add: store_with_M1_def)
  have p: "PutTipSetMetadata genesis_store 1 (NewCidV1 DagCBOR [3]) (NewCidV1 DagCBOR [2])
       = Inr store_with_M1"
    by (simp add: PutTipSetMetadata_def genesis_store_def store_with_M1_def)
  from SetHead_requires_metadata [of genesis_store 1]
    SetHead_requires_metadata [of store_with_M1 1] n m p
  show ?thesis by simp
qed

text \<open>
  C6. From a store that has no entry for \<open>k\<close>, or has the entry \<open>(r, e)\<close>,
  \<^verbatim>\<open>PutTipSetMetadata\<close> for \<open>k\<close> with roots \<open>r\<close>, \<open>e\<close> succeeds; afterwards the entry of
  \<open>k\<close> is \<open>(r, e)\<close>, every other entry and the head are as before, putting the same roots
  again succeeds and leaves the store as it is, and putting a different state root fails
  with InconsistentStateError: no store is returned in which the entry could have changed.
\<close>

theorem PutTipSetMetadata_idempotent:
  assumes "tipSetMetadata s k = None \<or> tipSetMetadata s k = Some (r, e)"
  shows "\<exists>s1. PutTipSetMetadata s k r e = Inr s1 \<and>
           tipSetMetadata s1 k = Some (r, e) \<and>
           (\<forall>k'. k' \<noteq> k \<longrightarrow> tipSetMetadata s1 k' = tipSetMetadata s k') \<and>
           head s1 = head s \<and>
           PutTipSetMetadata s1 k r e = Inr s1 \<and>
           (\<forall>r2. r2 \<noteq> r \<longrightarrow> PutTipSetMetadata s1 k r2 e = Inl InconsistentStateError)"
  using assms
proof
  assume "tipSetMetadata s k = None"
  then show ?thesis by (simp add: PutTipSetMetadata_def)
next
  assume "tipSetMetadata s k = Some (r, e)"
  then show ?thesis by (simp add: PutTipSetMetadata_def)
qed

theorem PutTipSetMetadata_idempotent_witness:
  "tipSetMetadata genesis_store 1 = None
   \<and> PutTipSetMetadata genesis_store 1 (NewCidV1 DagCBOR [3]) (NewCidV1 DagCBOR [2])
       = Inr store_with_M1
   \<and> tipSetMetadata store_with_M1 1 = Some (NewCidV1 DagCBOR [3], NewCidV1 DagCBOR [2])
   \<and> PutTipSetMetadata store_with_M1 1 (NewCidV1 DagCBOR [3]) (NewCidV1 DagCBOR [2])
       = Inr store_with_M1
   \<and> PutTipSetMetadata store_with_M1 1 (NewCidV1 DagCBOR [4]) (NewCidV1 DagCBOR [2])
       = Inl InconsistentStateError"
proof -
  have n: "tipSetMetadata genesis_store 1 = None"
    by (simp add: genesis_store_def)
  have p: "PutTipSetMetadata genesis_store 1 (NewCidV1 DagCBOR [3]) (NewCidV1 DagCBOR [2])
       = Inr store_with_M1"
    by (simp add: PutTipSetMetadata_def genesis_store_def store_with_M1_def)
  have d: "NewCidV1 DagCBOR [4] \<noteq> NewCidV1 DagCBOR [3 :: byte]" by simp
  from PutTipSetMetadata_idempotent [of genesis_store 1 "NewCidV1 DagCBOR [3]"
      "NewCidV1 DagCBOR [2]"] n p d
  show ?thesis by auto
qed

end
